theory Spec2Isabelle
  imports Main "HOL-Library.Word"
begin

section \<open>The PDAL session bindings (pdal-bindings.cpp)\<close>

text \<open>
  A shallow embedding of \<^verbatim>\<open>src/session-handler/addon/pdal-bindings.cpp\<close>: the
  Node.js addon object \<^verbatim>\<open>PdalBindings\<close>, which owns a shared handle to a
  \<^verbatim>\<open>PdalSession\<close> and a mutex-guarded map of the read commands in flight, and
  which hands its long operations (create/parse, serialize, read) to libuv's work queue.

  Every function of the source is a function on an explicit state (the record
  \<open>world\<close>). What a C++ function can do besides returning is a value of the type
  \<open>outcome\<close>: it returns, it throws, or it dereferences a null or deleted pointer.
\<close>

subsection \<open>JavaScript values and the arguments of a call\<close>

text \<open>
  The values the bindings receive from and hand to V8. A function is named by a
  number; a double is carried as its 64 bits (the bindings never compute with one);
  a buffer is its bytes.
\<close>

datatype jsval =
    JUndefined
  | JNull
  | JBoolean bool
  | JString string
  | JInteger int
  | JNumber "64 word"
  | JFunction nat
  | JArray "jsval list"
  | JBuffer "8 word list"
  | JObject

fun IsUndefined :: "jsval \<Rightarrow> bool" where
  "IsUndefined JUndefined = True"
| "IsUndefined _ = False"

fun IsString :: "jsval \<Rightarrow> bool" where
  "IsString (JString _) = True"
| "IsString _ = False"

fun IsFunction :: "jsval \<Rightarrow> bool" where
  "IsFunction (JFunction _) = True"
| "IsFunction _ = False"

fun IsArray :: "jsval \<Rightarrow> bool" where
  "IsArray (JArray _) = True"
| "IsArray _ = False"

text \<open>
  \<^verbatim>\<open>args[i]\<close>: V8's \<^verbatim>\<open>Arguments::operator[]\<close> gives undefined for an index
  past the arguments of the call.
\<close>

definition arg :: "jsval list \<Rightarrow> nat \<Rightarrow> jsval" where
  "arg args i = (if i < length args then args ! i else JUndefined)"

text \<open>
  \<^verbatim>\<open>*v8::String::Utf8Value(v->ToString())\<close> and \<^verbatim>\<open>Local<Function>::Cast(v)\<close>.
  The source applies them only behind \<^verbatim>\<open>IsString\<close> and \<^verbatim>\<open>IsFunction\<close>; the
  other equations are never reached.
\<close>

fun Utf8Value :: "jsval \<Rightarrow> string" where
  "Utf8Value (JString s) = s"
| "Utf8Value _ = []"

fun Function_Cast :: "jsval \<Rightarrow> nat" where
  "Function_Cast (JFunction f) = f"
| "Function_Cast _ = 0"

text \<open>
  \<^verbatim>\<open>Integer::New\<close> takes an \<^verbatim>\<open>int32_t\<close>: a \<^verbatim>\<open>std::size_t\<close> passed to it is
  narrowed to 32 bits and read as signed.
\<close>

definition Integer_New :: "nat \<Rightarrow> jsval" where
  "Integer_New n = JInteger (sint (word_of_nat n :: 32 word))"

subsection \<open>Exceptions and outcomes\<close>

datatype exn = runtime_error string | bad_alloc | other_exception

fun what :: "exn \<Rightarrow> string" where
  "what (runtime_error m) = m"
| "what bad_alloc = ''std::bad_alloc''"
| "what other_exception = []"

text \<open>
  What a call does: it returns a value in a new state, it throws (the state is what
  it was when the exception left the function), or it reads through a null or deleted
  pointer, which is undefined behaviour and taken to end the process.
\<close>

datatype ('a, 'w) outcome = Done 'a 'w | Thrown exn 'w | Crash

text \<open>
  A \<^verbatim>\<open>try\<close> block's handlers, in the order they are written. The first clause
  that matches the exception runs; when none matches the exception leaves the block.
\<close>

datatype catch_clause = catch_runtime_error | catch_bad_alloc | catch_all

fun catches :: "catch_clause \<Rightarrow> exn \<Rightarrow> bool" where
  "catches catch_runtime_error (runtime_error _) = True"
| "catches catch_runtime_error _ = False"
| "catches catch_bad_alloc bad_alloc = True"
| "catches catch_bad_alloc _ = False"
| "catches catch_all _ = True"

fun try_catch :: "(catch_clause \<times> (exn \<Rightarrow> 'a \<Rightarrow> 'a)) list \<Rightarrow> exn \<Rightarrow> 'a \<Rightarrow> exn + 'a" where
  "try_catch [] e x = Inl e"
| "try_catch ((c, h) # hs) e x = (if catches c e then Inr (h e x) else try_catch hs e x)"

subsection \<open>Read identifiers\<close>

definition readIdSize :: nat where
  "readIdSize = 24"

definition hexValues :: string where
  "hexValues = ''0123456789ABCDEF''"

text \<open>
  \<^verbatim>\<open>rand() % hexValues.size()\<close>: the \<^verbatim>\<open>int\<close> that \<^verbatim>\<open>rand()\<close> returns is
  converted to \<^verbatim>\<open>std::size_t\<close> (64 bits) before the remainder is taken.
\<close>

definition size_t_of_int :: "int \<Rightarrow> nat" where
  "size_t_of_int r = nat (r mod 2 ^ 64)"

text \<open>
  The loop of \<^verbatim>\<open>generateReadId\<close>. \<open>rnd k\<close> is what the \<open>k\<close>-th call of
  \<^verbatim>\<open>rand()\<close> in the process returns; the loop carries the number of calls made.
\<close>

function generateReadId_loop :: "(nat \<Rightarrow> int) \<Rightarrow> nat \<Rightarrow> nat \<Rightarrow> string \<Rightarrow> string \<times> nat" where
  "generateReadId_loop rnd i k ident =
     (if i < length ident
      then generateReadId_loop rnd (i + 1) (k + 1)
             (ident[i := hexValues ! (size_t_of_int (rnd k) mod length hexValues)])
      else (ident, k))"
  by pat_completeness auto
termination
  by (relation "measure (\<lambda>(rnd, i, k, ident). length ident - i)") auto

declare generateReadId_loop.simps [simp del]

definition generateReadId :: "(nat \<Rightarrow> int) \<Rightarrow> nat \<Rightarrow> string \<times> nat" where
  "generateReadId rnd k = generateReadId_loop rnd 0 k (replicate readIdSize (CHR ''0''))"

text \<open>The character the loop writes for a value of \<^verbatim>\<open>rand()\<close>.\<close>

definition hexdigit :: "int \<Rightarrow> char" where
  "hexdigit r = hexValues ! (size_t_of_int r mod length hexValues)"

subsection \<open>Path lists\<close>

fun parsePathList_loop :: "jsval list \<Rightarrow> string list \<Rightarrow> string list" where
  "parsePathList_loop [] paths = paths"
| "parsePathList_loop (rawValue # rest) paths =
     parsePathList_loop rest
       (if IsString rawValue then paths @ [Utf8Value rawValue] else paths)"

definition parsePathList :: "jsval \<Rightarrow> string list" where
  "parsePathList rawArg =
     (if \<not> IsUndefined rawArg \<and> IsArray rawArg
      then (case rawArg of JArray rawArray \<Rightarrow> parsePathList_loop rawArray [] | _ \<Rightarrow> [])
      else [])"

subsection \<open>Task payloads, read commands and the state\<close>

text \<open>
  The structures \<^verbatim>\<open>CreateData\<close>, \<^verbatim>\<open>SerializeData\<close>, \<^verbatim>\<open>ReadCommand\<close> and
  \<^verbatim>\<open>RasterMeta\<close> are declared in \<^verbatim>\<open>pdal-bindings.hpp\<close> and
  \<^verbatim>\<open>read-command.hpp\<close>, which are not among the sources. Their fields here are
  the ones pdal-bindings.cpp passes to their constructors or reads through their
  accessors. A persistent callback handle is the number of its function; a shared
  pointer to the session is \<open>Some\<close> address, or \<open>None\<close> once \<^verbatim>\<open>reset()\<close>.
\<close>

record background =
  callback :: nat
  errMsg :: string

record sessionData = background +
  pdalSession :: "nat option"

record CreateData = sessionData +
  pipelineId :: string
  pipeline :: string
  serialPaths :: "string list"
  execute :: bool

record SerializeData = sessionData +
  paths :: "string list"

record RasterMeta =
  xBegin :: "64 word"
  xStep :: "64 word"
  xNum :: nat
  yBegin :: "64 word"
  yStep :: "64 word"
  yNum :: nat

text \<open>
  A \<^verbatim>\<open>ReadCommandRastered\<close> is a \<^verbatim>\<open>ReadCommand\<close> with a \<^verbatim>\<open>RasterMeta\<close>;
  the field \<open>rasterMeta\<close> is read only when \<open>rasterize\<close> holds.
\<close>

record ReadCommand = background +
  readId :: string
  rasterize :: bool
  numPoints :: nat
  numBytes :: nat
  data :: "8 word list"
  rasterMeta :: RasterMeta

text \<open>A request on libuv's work queue: \<^verbatim>\<open>req->data\<close> by its kind.\<close>

datatype work = CreateWork CreateData | SerializeWork SerializeData | ReadWork nat

text \<open>
  What the bindings do that is visible from outside the object: a persistent handle
  made for a callback, a call of a callback with its arguments, the disposal of a
  handle, a line on standard output, and the \<^verbatim>\<open>delete\<close> of a read command or of a
  work request.
\<close>

datatype event =
    Persist nat
  | Call nat "jsval list"
  | Dispose nat
  | Stdout string
  | DeleteCommand nat
  | DeleteRequest

text \<open>
  The state. \<open>m_pdalSession\<close>, \<open>m_readCommandsMutex\<close> (held or not) and
  \<open>m_readCommands\<close> are the members of \<^verbatim>\<open>PdalBindings\<close>; \<open>sessions\<close> is the
  store of the session objects the shared pointers point to (an object lives as long
  as a pointer to it does); \<open>commands\<close> is the heap of the read commands, which the
  source allocates and deletes by hand; \<open>next_command\<close> is the address the next
  allocation gets; \<open>work_queue\<close> holds the requests given to \<^verbatim>\<open>uv_queue_work\<close>
  and not yet completed; \<open>rand_calls\<close> counts the calls of \<^verbatim>\<open>rand()\<close>.
\<close>

record 's world =
  m_pdalSession :: "nat option"
  m_readCommandsMutex :: bool
  m_readCommands :: "string \<rightharpoonup> nat"
  sessions :: "nat \<Rightarrow> 's"
  commands :: "nat \<rightharpoonup> ReadCommand"
  next_command :: nat
  work_queue :: "work list"
  events :: "event list"
  rand_calls :: nat

text \<open>
  What the bindings call and the sources do not hold: \<^verbatim>\<open>rand()\<close> of the C
  library, the methods of \<^verbatim>\<open>PdalSession\<close>, \<^verbatim>\<open>ReadCommand::run\<close> and
  \<^verbatim>\<open>ReadCommandFactory::create\<close>. They are parameters of the model. A method
  that changes its object returns the exception it threw, if any, and the object as
  it left it. The factory returns the new command or null, and what it did on the
  way (its own error callback); \<open>map_insert_throws\<close> says whether the insertion
  into \<^verbatim>\<open>std::map\<close> for a given key throws (an allocation failure).
\<close>

record 's env =
  rand :: "nat \<Rightarrow> int"
  session_initialize :: "'s \<Rightarrow> string \<Rightarrow> string \<Rightarrow> string list \<Rightarrow> bool \<Rightarrow> exn option \<times> 's"
  session_serialize :: "'s \<Rightarrow> string list \<Rightarrow> exn option \<times> 's"
  session_getNumPoints :: "'s \<Rightarrow> exn + nat"
  session_getSchema :: "'s \<Rightarrow> exn + string"
  session_getStats :: "'s \<Rightarrow> exn + string"
  session_getSrs :: "'s \<Rightarrow> exn + string"
  session_getFills :: "'s \<Rightarrow> exn + nat list"
  command_run :: "(nat \<Rightarrow> 's) \<Rightarrow> ReadCommand \<Rightarrow> exn option \<times> ReadCommand"
  factory_create :: "nat option \<Rightarrow> string \<Rightarrow> jsval list \<Rightarrow> ReadCommand option \<times> event list"
  map_insert_throws :: "string \<Rightarrow> bool"

text \<open>
  Modelled from the spec: \<^verbatim>\<open>errorCallback\<close> is declared in a header that is not
  among the sources. The spec has an error "reported immediately through the
  callback", the callback invoked "with the error and no data", and the callback
  handle "released exactly once regardless of branch": the callback is called with the
  message as its only argument and its handle is disposed of.
\<close>

definition errorCallback :: "nat \<Rightarrow> string \<Rightarrow> 's world \<Rightarrow> 's world" where
  "errorCallback cb msg w = w\<lparr>events := events w @ [Call cb [JString msg], Dispose cb]\<rparr>"

text \<open>
  Modelled from the spec: \<^verbatim>\<open>ReadCommand::eraseSelf\<close> is defined in
  read-command.cpp, which is not among the sources. The spec's \<^verbatim>\<open>remove(id)\<close>
  "removes and relinquishes the registry's ownership share; no-op if absent", under
  the registry's lock.
\<close>

definition eraseSelf :: "ReadCommand \<Rightarrow> 's world \<Rightarrow> 's world" where
  "eraseSelf c w =
     (let w1 = w\<lparr>m_readCommandsMutex := True\<rparr>;
          w2 = w1\<lparr>m_readCommands := (m_readCommands w1)(readId c := None)\<rparr>
      in w2\<lparr>m_readCommandsMutex := False\<rparr>)"

subsection \<open>Initialisation: create, parse, destroy\<close>

fun and_then :: "('a, 'w) outcome \<Rightarrow> ('a \<Rightarrow> 'w \<Rightarrow> ('b, 'w) outcome) \<Rightarrow> ('b, 'w) outcome" where
  "and_then (Done x w) f = f x w"
| "and_then (Thrown e w) f = Thrown e w"
| "and_then Crash f = Crash"

text \<open>The messages of \<^verbatim>\<open>doInitialize\<close> and \<^verbatim>\<open>serialize\<close>, as the source spells them.\<close>

definition pipelineId_message :: string where
  "pipelineId_message = CHR 0x27 # ''pipelineId' must be a string - args[0]''"

definition pipeline_message :: string where
  "pipeline_message = CHR 0x27 # ''pipeline' must be a string - args[1]''"

definition create_callback_message :: string where
  "create_callback_message = ''Invalid callback supplied to 'create'' @ [CHR 0x27]"

definition serialize_callback_message :: string where
  "serialize_callback_message = ''Invalid callback supplied to 'serialize'' @ [CHR 0x27]"

text \<open>
  \<^verbatim>\<open>PdalBindings::doInitialize\<close>, up to and including \<^verbatim>\<open>uv_queue_work\<close>. The two
  callbacks it passes to \<^verbatim>\<open>uv_queue_work\<close> follow as functions of their own.
\<close>

definition doInitialize :: "jsval list \<Rightarrow> bool \<Rightarrow> 's world \<Rightarrow> (unit, 's world) outcome" where
  "doInitialize args exec w =
     (let errMsg0 = [];
          errMsg1 = (if IsUndefined (arg args 0) \<or> \<not> IsString (arg args 0)
                     then pipelineId_message
                     else errMsg0);
          errMsg2 = (if IsUndefined (arg args 1) \<or> \<not> IsString (arg args 1)
                     then pipeline_message
                     else errMsg1)
      in if IsUndefined (arg args 3) \<or> \<not> IsFunction (arg args 3)
         then Thrown (runtime_error create_callback_message) w
         else
           let cb = Function_Cast (arg args 3);
               w1 = w\<lparr>events := events w @ [Persist cb]\<rparr>
           in if errMsg2 \<noteq> []
              then Done () (errorCallback cb errMsg2 w1)
              else
                let createData =
                      \<lparr>callback = cb, errMsg = [], pdalSession = m_pdalSession w1,
                       pipelineId = Utf8Value (arg args 0),
                       pipeline = Utf8Value (arg args 1),
                       serialPaths = parsePathList (arg args 2),
                       execute = exec\<rparr>
                in Done () (w1\<lparr>work_queue := work_queue w1 @ [CreateWork createData]\<rparr>))"

text \<open>The \<^verbatim>\<open>uv_work_cb\<close> of \<^verbatim>\<open>doInitialize\<close>: it runs on a pool thread.\<close>

definition doInitialize_work :: "'s env \<Rightarrow> CreateData \<Rightarrow> 's world \<Rightarrow> (CreateData, 's world) outcome" where
  "doInitialize_work env createData w =
     (case pdalSession createData of
        None \<Rightarrow> Crash
      | Some a \<Rightarrow>
          let (thrown, s) = session_initialize env (sessions w a) (pipelineId createData)
                              (pipeline createData) (serialPaths createData) (execute createData);
              w1 = w\<lparr>sessions := (sessions w)(a := s)\<rparr>
          in case thrown of
               None \<Rightarrow> Done createData w1
             | Some e \<Rightarrow>
                 (case try_catch
                         [(catch_runtime_error, \<lambda>e d. d\<lparr>errMsg := what e\<rparr>),
                          (catch_bad_alloc, \<lambda>e d. d\<lparr>errMsg := ''Memory allocation failed in CREATE''\<rparr>),
                          (catch_all, \<lambda>e d. d\<lparr>errMsg := ''Unknown error''\<rparr>)]
                         e createData of
                    Inl e' \<Rightarrow> Thrown e' w1
                  | Inr d \<Rightarrow> Done d w1))"

text \<open>The \<^verbatim>\<open>uv_after_work_cb\<close> of \<^verbatim>\<open>doInitialize\<close>: it runs on the loop's thread.\<close>

definition doInitialize_after_work :: "CreateData \<Rightarrow> 's world \<Rightarrow> (unit, 's world) outcome" where
  "doInitialize_after_work createData w =
     Done () (w\<lparr>events := events w @
                [Call (callback createData) [JString (errMsg createData)],
                 Dispose (callback createData),
                 DeleteRequest]\<rparr>)"

definition create :: "jsval list \<Rightarrow> 's world \<Rightarrow> (jsval, 's world) outcome" where
  "create args w = and_then (doInitialize args True w) (\<lambda>_ w1. Done JUndefined w1)"

definition parse :: "jsval list \<Rightarrow> 's world \<Rightarrow> (jsval, 's world) outcome" where
  "parse args w =
     and_then (doInitialize args False w) (\<lambda>_ w1. Done JUndefined (w1\<lparr>m_pdalSession := None\<rparr>))"

definition destroy :: "jsval list \<Rightarrow> 's world \<Rightarrow> (jsval, 's world) outcome" where
  "destroy args w = Done JUndefined (w\<lparr>m_pdalSession := None\<rparr>)"

subsection \<open>The synchronous queries\<close>

text \<open>
  Each query calls the session's method through \<^verbatim>\<open>obj->m_pdalSession->\<close>, with no
  test of the pointer and no \<^verbatim>\<open>try\<close> block: a null pointer is dereferenced, and an
  exception of the method leaves the query.
\<close>

definition getNumPoints :: "'s env \<Rightarrow> jsval list \<Rightarrow> 's world \<Rightarrow> (jsval, 's world) outcome" where
  "getNumPoints env args w =
     (case m_pdalSession w of
        None \<Rightarrow> Crash
      | Some a \<Rightarrow>
          (case session_getNumPoints env (sessions w a) of
             Inl e \<Rightarrow> Thrown e w
           | Inr n \<Rightarrow> Done (Integer_New n) w))"

definition getSchema :: "'s env \<Rightarrow> jsval list \<Rightarrow> 's world \<Rightarrow> (jsval, 's world) outcome" where
  "getSchema env args w =
     (case m_pdalSession w of
        None \<Rightarrow> Crash
      | Some a \<Rightarrow>
          (case session_getSchema env (sessions w a) of
             Inl e \<Rightarrow> Thrown e w
           | Inr schema \<Rightarrow> Done (JString schema) w))"

definition getStats :: "'s env \<Rightarrow> jsval list \<Rightarrow> 's world \<Rightarrow> (jsval, 's world) outcome" where
  "getStats env args w =
     (case m_pdalSession w of
        None \<Rightarrow> Crash
      | Some a \<Rightarrow>
          (case session_getStats env (sessions w a) of
             Inl e \<Rightarrow> Thrown e w
           | Inr stats \<Rightarrow> Done (JString stats) w))"

definition getSrs :: "'s env \<Rightarrow> jsval list \<Rightarrow> 's world \<Rightarrow> (jsval, 's world) outcome" where
  "getSrs env args w =
     (case m_pdalSession w of
        None \<Rightarrow> Crash
      | Some a \<Rightarrow>
          (case session_getSrs env (sessions w a) of
             Inl e \<Rightarrow> Thrown e w
           | Inr wkt \<Rightarrow> Done (JString wkt) w))"

definition getFills :: "'s env \<Rightarrow> jsval list \<Rightarrow> 's world \<Rightarrow> (jsval, 's world) outcome" where
  "getFills env args w =
     (case m_pdalSession w of
        None \<Rightarrow> Crash
      | Some a \<Rightarrow>
          (case session_getFills env (sessions w a) of
             Inl e \<Rightarrow> Thrown e w
           | Inr fills \<Rightarrow> Done (JArray (map Integer_New fills)) w))"

subsection \<open>Serialisation\<close>

definition serialize :: "jsval list \<Rightarrow> 's world \<Rightarrow> (jsval, 's world) outcome" where
  "serialize args w =
     (let errMsg0 = []
      in if IsUndefined (arg args 1) \<or> \<not> IsFunction (arg args 1)
         then Thrown (runtime_error serialize_callback_message) w
         else
           let cb = Function_Cast (arg args 1);
               w1 = w\<lparr>events := events w @ [Persist cb]\<rparr>
           in if errMsg0 \<noteq> []
              then Done JUndefined
                     (errorCallback cb errMsg0 (w1\<lparr>events := events w1 @ [Stdout ''Erroring SERIALIZE'']\<rparr>))
              else
                let serializeData =
                      \<lparr>callback = cb, errMsg = [], pdalSession = m_pdalSession w1,
                       paths = parsePathList (arg args 0)\<rparr>;
                    w2 = w1\<lparr>events := events w1 @ [Stdout ''Starting serialization task'']\<rparr>
                in Done JUndefined (w2\<lparr>work_queue := work_queue w2 @ [SerializeWork serializeData]\<rparr>))"

definition serialize_work :: "'s env \<Rightarrow> SerializeData \<Rightarrow> 's world \<Rightarrow> (SerializeData, 's world) outcome" where
  "serialize_work env serializeData w =
     (case pdalSession serializeData of
        None \<Rightarrow> Crash
      | Some a \<Rightarrow>
          let (thrown, s) = session_serialize env (sessions w a) (paths serializeData);
              w1 = w\<lparr>sessions := (sessions w)(a := s)\<rparr>
          in case thrown of
               None \<Rightarrow> Done serializeData w1
             | Some e \<Rightarrow>
                 (case try_catch
                         [(catch_runtime_error, \<lambda>e d. d\<lparr>errMsg := what e\<rparr>),
                          (catch_bad_alloc, \<lambda>e d. d\<lparr>errMsg := ''Memory allocation failed in SERIALIZE''\<rparr>),
                          (catch_all, \<lambda>e d. d\<lparr>errMsg := ''Unknown error''\<rparr>)]
                         e serializeData of
                    Inl e' \<Rightarrow> Thrown e' w1
                  | Inr d \<Rightarrow> Done d w1))"

definition serialize_after_work :: "SerializeData \<Rightarrow> 's world \<Rightarrow> (unit, 's world) outcome" where
  "serialize_after_work serializeData w =
     Done () (w\<lparr>events := events w @
                [Call (callback serializeData) [JString (errMsg serializeData)],
                 Dispose (callback serializeData),
                 DeleteRequest]\<rparr>)"

subsection \<open>Reads\<close>

text \<open>
  Lines 424 to 434 of \<^verbatim>\<open>PdalBindings::read\<close>: under the mutex, the command's
  pointer is stored with \<^verbatim>\<open>m_readCommands[readId] = readCommand\<close>. An exception of
  the insertion is answered by unlocking and throwing a \<^verbatim>\<open>runtime_error\<close>.
\<close>

definition insertReadCommand :: "'s env \<Rightarrow> string \<Rightarrow> nat \<Rightarrow> 's world \<Rightarrow> (unit, 's world) outcome" where
  "insertReadCommand env ident p w =
     (let w1 = w\<lparr>m_readCommandsMutex := True\<rparr>
      in if map_insert_throws env ident
         then Thrown (runtime_error ''Could not lock readCommands'')
                (w1\<lparr>m_readCommandsMutex := False\<rparr>)
         else
           let w2 = w1\<lparr>m_readCommands := (m_readCommands w1)(ident \<mapsto> p)\<rparr>
           in Done () (w2\<lparr>m_readCommandsMutex := False\<rparr>))"

text \<open>
  \<^verbatim>\<open>PdalBindings::read\<close>, up to and including \<^verbatim>\<open>uv_queue_work\<close>. The command
  the factory made is put on the heap at the next free address.
\<close>

definition read :: "'s env \<Rightarrow> jsval list \<Rightarrow> 's world \<Rightarrow> (jsval, 's world) outcome" where
  "read env args w =
     (let (ident, k) = generateReadId (rand env) (rand_calls w);
          w1 = w\<lparr>rand_calls := k\<rparr>;
          (readCommand, did) = factory_create env (m_pdalSession w1) ident args;
          w2 = w1\<lparr>events := events w1 @ did\<rparr>
      in case readCommand of
           None \<Rightarrow> Done JUndefined w2
         | Some c \<Rightarrow>
             let p = next_command w2;
                 w3 = w2\<lparr>commands := (commands w2)(p \<mapsto> c), next_command := p + 1\<rparr>
             in and_then (insertReadCommand env ident p w3)
                  (\<lambda>_ w4. Done JUndefined (w4\<lparr>work_queue := work_queue w4 @ [ReadWork p]\<rparr>)))"

text \<open>The \<^verbatim>\<open>uv_work_cb\<close> of \<^verbatim>\<open>read\<close>.\<close>

definition read_work :: "'s env \<Rightarrow> nat \<Rightarrow> 's world \<Rightarrow> (unit, 's world) outcome" where
  "read_work env p w =
     (case commands w p of
        None \<Rightarrow> Crash
      | Some c \<Rightarrow>
          let (thrown, c1) = command_run env (sessions w) c
          in case thrown of
               None \<Rightarrow> Done () (w\<lparr>commands := (commands w)(p \<mapsto> c1)\<rparr>)
             | Some e \<Rightarrow>
                 (case try_catch
                         [(catch_runtime_error, \<lambda>e d. d\<lparr>errMsg := what e\<rparr>),
                          (catch_all, \<lambda>e d. d\<lparr>errMsg := ''Unknown error''\<rparr>)]
                         e c1 of
                    Inl e' \<Rightarrow> Thrown e' (w\<lparr>commands := (commands w)(p \<mapsto> c1)\<rparr>)
                  | Inr c2 \<Rightarrow> Done () (w\<lparr>commands := (commands w)(p \<mapsto> c2)\<rparr>)))"

text \<open>
  \<^verbatim>\<open>reinterpret_cast<ReadCommandRastered*>(readCommand)\<close>: the pointer, which has
  been dereferenced already, is not null, and neither is the result.
\<close>

definition reinterpret_cast_Rastered :: "nat \<Rightarrow> nat option" where
  "reinterpret_cast_Rastered p = Some p"

text \<open>
  \<^verbatim>\<open>node::Buffer::New(data, numBytes)\<close> copies \<open>numBytes\<close> bytes. (A command whose
  \<open>numBytes\<close> is more than it holds would have the source read past its data; the
  model copies what there is.)
\<close>

definition Buffer_New :: "8 word list \<Rightarrow> nat \<Rightarrow> jsval" where
  "Buffer_New bytes n = JBuffer (take n bytes)"

text \<open>The \<^verbatim>\<open>uv_after_work_cb\<close> of \<^verbatim>\<open>read\<close>.\<close>

definition read_after_work :: "nat \<Rightarrow> 's world \<Rightarrow> (unit, 's world) outcome" where
  "read_after_work p w =
     (case commands w p of
        None \<Rightarrow> Crash
      | Some c \<Rightarrow>
          if errMsg c \<noteq> []
          then
            let w1 = errorCallback (callback c) (errMsg c) w;
                w2 = eraseSelf c w1;
                w3 = w2\<lparr>commands := (commands w2)(p := None),
                        events := events w2 @ [DeleteCommand p]\<rparr>
            in Done () w3
          else
            let ident = readId c;
                w1 =
                  (if rasterize c
                   then
                     (case reinterpret_cast_Rastered p of
                        Some q \<Rightarrow>
                          let m = rasterMeta c
                          in w\<lparr>events := events w @
                                [Call (callback c)
                                   [JNull,
                                    JString ident,
                                    Integer_New (numPoints c),
                                    Integer_New (numBytes c),
                                    Buffer_New (data c) (numBytes c),
                                    JNumber (xBegin m),
                                    JNumber (xStep m),
                                    Integer_New (xNum m),
                                    JNumber (yBegin m),
                                    JNumber (yStep m),
                                    Integer_New (yNum m)]]\<rparr>
                      | None \<Rightarrow> errorCallback (callback c) ''Invalid ReadCommand'' w)
                   else
                     w\<lparr>events := events w @
                         [Call (callback c)
                            [JNull,
                             JString ident,
                             Integer_New (numPoints c),
                             Integer_New (numBytes c),
                             Buffer_New (data c) (numBytes c)]]\<rparr>)
            in Done () (w1\<lparr>events := events w1 @ [Dispose (callback c), DeleteRequest]\<rparr>))"

subsection \<open>The work queue\<close>

text \<open>
  libuv runs the first callback of a queued request on a pool thread and, when it
  has returned, the second on the loop's thread. \<open>uv_complete env i\<close> does both for
  the \<open>i\<close>-th request of the queue: the requests complete in any order.
\<close>

fun uv_work :: "'s env \<Rightarrow> work \<Rightarrow> 's world \<Rightarrow> (work, 's world) outcome" where
  "uv_work env (CreateWork d) w =
     and_then (doInitialize_work env d w) (\<lambda>d1 w1. Done (CreateWork d1) w1)"
| "uv_work env (SerializeWork d) w =
     and_then (serialize_work env d w) (\<lambda>d1 w1. Done (SerializeWork d1) w1)"
| "uv_work env (ReadWork p) w =
     and_then (read_work env p w) (\<lambda>_ w1. Done (ReadWork p) w1)"

fun uv_after_work :: "work \<Rightarrow> 's world \<Rightarrow> (unit, 's world) outcome" where
  "uv_after_work (CreateWork d) w = doInitialize_after_work d w"
| "uv_after_work (SerializeWork d) w = serialize_after_work d w"
| "uv_after_work (ReadWork p) w = read_after_work p w"

definition uv_complete :: "'s env \<Rightarrow> nat \<Rightarrow> 's world \<Rightarrow> (unit, 's world) outcome" where
  "uv_complete env i w =
     (if i < length (work_queue w)
      then
        let req = work_queue w ! i;
            w1 = w\<lparr>work_queue := take i (work_queue w) @ drop (Suc i) (work_queue w)\<rparr>
        in and_then (uv_work env req w1) uv_after_work
      else Done () w)"

subsection \<open>Reading the events\<close>

text \<open>The calls of callbacks among a list of events: which callback, with which arguments.\<close>

fun calls :: "event list \<Rightarrow> (nat \<times> jsval list) list" where
  "calls [] = []"
| "calls (Call f args # es) = (f, args) # calls es"
| "calls (_ # es) = calls es"

text \<open>The handles disposed of, and the commands deleted, among a list of events.\<close>

fun disposals :: "event list \<Rightarrow> nat list" where
  "disposals [] = []"
| "disposals (Dispose f # es) = f # disposals es"
| "disposals (_ # es) = disposals es"

fun deletions :: "event list \<Rightarrow> nat list" where
  "deletions [] = []"
| "deletions (DeleteCommand p # es) = p # deletions es"
| "deletions (_ # es) = deletions es"

text \<open>
  The message each work callback stores for an exception of the engine: what its
  \<^verbatim>\<open>catch\<close> clauses assign.
\<close>

fun create_message :: "exn \<Rightarrow> string" where
  "create_message (runtime_error m) = m"
| "create_message bad_alloc = ''Memory allocation failed in CREATE''"
| "create_message other_exception = ''Unknown error''"

fun serialize_message :: "exn \<Rightarrow> string" where
  "serialize_message (runtime_error m) = m"
| "serialize_message bad_alloc = ''Memory allocation failed in SERIALIZE''"
| "serialize_message other_exception = ''Unknown error''"

fun read_message :: "exn \<Rightarrow> string" where
  "read_message (runtime_error m) = m"
| "read_message bad_alloc = ''Unknown error''"
| "read_message other_exception = ''Unknown error''"

subsection \<open>A concrete session\<close>

text \<open>
  An engine, a factory and a state to run the bindings on: the session is a number
  (its point count, 0 before initialisation), \<^verbatim>\<open>rand()\<close> counts up from 0, and
  the factory accepts a request whose second argument is a function.
\<close>

definition example_command :: "nat \<Rightarrow> string \<Rightarrow> ReadCommand" where
  "example_command cb ident =
     \<lparr>callback = cb, errMsg = [], readId = ident, rasterize = False,
      numPoints = 0, numBytes = 0, data = [],
      rasterMeta = \<lparr>xBegin = 0, xStep = 0, xNum = 0, yBegin = 0, yStep = 0, yNum = 0\<rparr>\<rparr>"

definition example_env :: "nat env" where
  "example_env =
     \<lparr>rand = (\<lambda>k. int k),
      session_initialize =
        (\<lambda>s pid p sp ex. if p = [] then (Some (runtime_error ''empty pipeline''), s)
                         else (None, length p)),
      session_serialize = (\<lambda>s ps. (None, s)),
      session_getNumPoints = (\<lambda>s. if s = 0 then Inl (runtime_error ''Not initialized'') else Inr s),
      session_getSchema = (\<lambda>s. Inr ''X,Y,Z''),
      session_getStats = (\<lambda>s. Inr ''{}''),
      session_getSrs = (\<lambda>s. Inr []),
      session_getFills = (\<lambda>s. Inr [s]),
      command_run = (\<lambda>ss c. (None, c\<lparr>numPoints := 1, numBytes := 3, data := [1, 2, 3]\<rparr>)),
      factory_create =
        (\<lambda>sess ident args.
           case arg args 1 of
             JFunction f \<Rightarrow> (Some (example_command f ident), [Persist f])
           | _ \<Rightarrow> (None, [])),
      map_insert_throws = (\<lambda>ident. False)\<rparr>"

definition example_world :: "nat world" where
  "example_world =
     \<lparr>m_pdalSession = Some 0, m_readCommandsMutex = False, m_readCommands = Map.empty,
      sessions = (\<lambda>a. 0), commands = Map.empty, next_command = 0,
      work_queue = [], events = [], rand_calls = 0\<rparr>"

text \<open>
  The same engine with a serialisation that runs out of memory and a read that throws
  something that is not a \<^verbatim>\<open>std::exception\<close>; and one whose generator is
  reseeded with the same seed before every identifier, so that \<^verbatim>\<open>rand()\<close> repeats
  its values every 24 calls.
\<close>

definition failing_env :: "nat env" where
  "failing_env =
     example_env\<lparr>session_serialize := (\<lambda>s ps. (Some bad_alloc, s)),
                 command_run := (\<lambda>ss c. (Some other_exception, c))\<rparr>"

definition reseeded_env :: "nat env" where
  "reseeded_env = example_env\<lparr>rand := (\<lambda>k. int (k mod 24))\<rparr>"

text \<open>
  Task payloads for a create with an empty pipeline and for a serialize, and a state
  with one read command on the heap.
\<close>

definition example_createData :: CreateData where
  "example_createData =
     \<lparr>callback = 4, errMsg = [], pdalSession = Some 0, pipelineId = ''p1'', pipeline = [],
      serialPaths = [], execute = True\<rparr>"

definition example_serializeData :: SerializeData where
  "example_serializeData = \<lparr>callback = 5, errMsg = [], pdalSession = Some 0, paths = []\<rparr>"

definition example_reading :: "nat world" where
  "example_reading = example_world\<lparr>commands := [0 \<mapsto> example_command 7 ''AB'']\<rparr>"

text \<open>
  The state after \<open>read\<close> has dispatched the request \<open>[JObject, JFunction 7]\<close> in
  \<open>example_world\<close>: the command is on the heap at address 0, registered under the
  identifier drawn, and its request is queued. Then the two states the completion of
  that request leads to: with the run of \<open>example_env\<close>, which succeeds, and with the
  run of \<open>failing_env\<close>, which throws.
\<close>

definition example_dispatched :: "nat world" where
  "example_dispatched =
     example_world\<lparr>m_readCommands := [''0123456789ABCDEF01234567'' \<mapsto> 0],
                   commands := [0 \<mapsto> example_command 7 ''0123456789ABCDEF01234567''],
                   next_command := 1,
                   work_queue := [ReadWork 0],
                   events := [Persist 7],
                   rand_calls := 24\<rparr>"

definition example_delivered :: "nat world" where
  "example_delivered =
     example_dispatched\<lparr>
       commands := [0 \<mapsto> (example_command 7 ''0123456789ABCDEF01234567'')
                              \<lparr>numPoints := 1, numBytes := 3, data := [1, 2, 3]\<rparr>],
       work_queue := [],
       events := [Persist 7,
                  Call 7 [JNull, JString ''0123456789ABCDEF01234567'', JInteger 1, JInteger 3,
                          JBuffer [1, 2, 3]],
                  Dispose 7,
                  DeleteRequest]\<rparr>"

definition example_failed :: "nat world" where
  "example_failed =
     example_dispatched\<lparr>
       m_readCommands := Map.empty,
       commands := Map.empty,
       work_queue := [],
       events := [Persist 7, Call 7 [JString ''Unknown error''], Dispose 7, DeleteCommand 0]\<rparr>"

section \<open>Properties of the identifiers\<close>

text \<open>
  The loop of \<open>generateReadId\<close> in closed form: position \<open>j\<close> of the identifier
  holds the character of the \<open>j\<close>-th value drawn, and the loop draws one value for
  each position.
\<close>

lemma generateReadId_loop_closed:
  "i \<le> length ident \<Longrightarrow>
   generateReadId_loop rnd i k ident =
     (take i ident @ map (\<lambda>j. hexdigit (rnd (k + j))) [0..<length ident - i],
      k + (length ident - i))"
proof (induction rnd i k ident rule: generateReadId_loop.induct)
  case (1 rnd i k ident)
  show ?case
  proof (cases "i < length ident")
    case True
    let ?d = "hexValues ! (size_t_of_int (rnd k) mod length hexValues)"
    have ih: "generateReadId_loop rnd (i + 1) (k + 1) (ident[i := ?d]) =
      (take (i + 1) (ident[i := ?d]) @
         map (\<lambda>j. hexdigit (rnd (k + 1 + j))) [0..<length (ident[i := ?d]) - (i + 1)],
       k + 1 + (length (ident[i := ?d]) - (i + 1)))"
      using "1.IH" [OF True] True by simp
    have tk: "take (i + 1) (ident[i := ?d]) = take i ident @ [?d]"
      using True by (simp add: take_Suc_conv_app_nth)
    obtain m where m: "length ident - i = Suc m"
      using True by (cases "length ident - i") auto
    have up: "[0..<Suc m] = 0 # map Suc [0..<m]"
      by (simp add: upt_conv_Cons map_Suc_upt del: upt_Suc)
    have m': "length ident - (i + 1) = m" using m by simp
    show ?thesis
      apply (subst generateReadId_loop.simps)
      using True
      apply (simp only: if_True ih tk m m' up length_list_update)
      apply (simp add: hexdigit_def comp_def)
      done
  next
    case False
    with "1.prems" have "i = length ident" by simp
    then show ?thesis by (subst generateReadId_loop.simps) simp
  qed
qed

lemma generateReadId_closed:
  "generateReadId rnd k = (map (\<lambda>j. hexdigit (rnd (k + j))) [0..<readIdSize], k + readIdSize)"
proof -
  have "0 \<le> length (replicate readIdSize (CHR ''0''))" by simp
  from generateReadId_loop_closed [OF this, of rnd k] show ?thesis
    by (simp only: generateReadId_def length_replicate take_0 append_Nil diff_zero)
qed

lemma length_hexValues: "length hexValues = 16"
  by (simp add: hexValues_def)

lemma distinct_hexValues: "distinct hexValues"
  by (simp add: hexValues_def)

lemma size_t_mod_16: "size_t_of_int r mod 16 = nat (r mod 16)"
proof -
  have "(16::int) dvd 2 ^ 64" by simp
  then have "(r mod 2 ^ 64) mod 16 = r mod 16" by (rule mod_mod_cancel)
  moreover have "nat (r mod 2 ^ 64) mod 16 = nat ((r mod 2 ^ 64) mod 16)"
    by (simp add: nat_mod_distrib)
  ultimately show ?thesis by (simp add: size_t_of_int_def)
qed

lemma hexdigit_in: "hexdigit r \<in> set hexValues"
  unfolding hexdigit_def by (rule nth_mem) (simp add: length_hexValues)

lemma hexdigit_eq_iff: "hexdigit r = hexdigit r' \<longleftrightarrow> r mod 16 = r' mod 16"
proof -
  have "hexdigit r = hexdigit r' \<longleftrightarrow> size_t_of_int r mod 16 = size_t_of_int r' mod 16"
    unfolding hexdigit_def length_hexValues
    by (rule nth_eq_iff_index_eq [OF distinct_hexValues]) (simp_all add: length_hexValues)
  also have "\<dots> \<longleftrightarrow> nat (r mod 16) = nat (r' mod 16)"
    by (simp only: size_t_mod_16)
  also have "\<dots> \<longleftrightarrow> r mod 16 = r' mod 16"
    by (simp add: nat_eq_iff)
  finally show ?thesis .
qed

lemma example_id: "generateReadId (\<lambda>k. int k) 0 = (''0123456789ABCDEF01234567'', 24)"
  by code_simp

lemma reseeded_id_first:
  "generateReadId (\<lambda>k. int (k mod 24)) 0 = (''0123456789ABCDEF01234567'', 24)"
  by code_simp

lemma reseeded_id_second:
  "generateReadId (\<lambda>k. int (k mod 24)) 24 = (''0123456789ABCDEF01234567'', 48)"
  by code_simp

text \<open>
  C8. Every identifier \<open>generateReadId\<close> returns has exactly 24 characters, each of
  them one of \<open>0123456789ABCDEF\<close>, whatever \<^verbatim>\<open>rand()\<close> returns (a negative value
  included); generating it takes 24 calls of \<^verbatim>\<open>rand()\<close>.
\<close>

theorem generateReadId_format:
  "length (fst (generateReadId rnd k)) = 24 \<and>
   (\<forall>c \<in> set (fst (generateReadId rnd k)). c \<in> set ''0123456789ABCDEF'') \<and>
   snd (generateReadId rnd k) = k + 24"
proof -
  have "\<forall>c \<in> set (fst (generateReadId rnd k)). c \<in> set hexValues"
    by (auto simp: generateReadId_closed hexdigit_in)
  then show ?thesis
    by (simp add: generateReadId_closed readIdSize_def hexValues_def)
qed

theorem generateReadId_format_witness:
  "length (fst (generateReadId (\<lambda>k. int k) 0)) = 24 \<and>
   CHR ''A'' \<in> set (fst (generateReadId (\<lambda>k. int k) 0)) \<and>
   CHR ''A'' \<in> set ''0123456789ABCDEF''"
  using generateReadId_format [of "\<lambda>k. int k" 0] by (simp add: example_id)

section \<open>Properties of the operations\<close>

subsection \<open>What each step computes\<close>

lemma IsString_not_IsUndefined: "IsString v \<Longrightarrow> \<not> IsUndefined v"
  by (cases v) simp_all

lemma IsUndefined_not_IsFunction: "IsUndefined v \<Longrightarrow> \<not> IsFunction v"
  by (cases v) simp_all

lemma doInitialize_invalid_callback:
  "IsUndefined (arg args 3) \<or> \<not> IsFunction (arg args 3) \<Longrightarrow>
   doInitialize args exec w = Thrown (runtime_error create_callback_message) w"
  by (simp add: doInitialize_def Let_def)

text \<open>
  A read whose command the factory made and whose insertion does not throw: what
  \<open>read\<close> returns and the state it leaves.
\<close>

lemma read_dispatched:
  assumes "generateReadId (rand env) (rand_calls w) = (ident, k)"
      and "factory_create env (m_pdalSession w) ident args = (Some c, did)"
      and "\<not> map_insert_throws env ident"
  shows "read env args w =
           Done JUndefined
             (w\<lparr>rand_calls := k,
                events := events w @ did,
                commands := (commands w)(next_command w \<mapsto> c),
                next_command := next_command w + 1,
                m_readCommandsMutex := False,
                m_readCommands := (m_readCommands w)(ident \<mapsto> next_command w),
                work_queue := work_queue w @ [ReadWork (next_command w)]\<rparr>)"
  using assms by (simp add: read_def insertReadCommand_def Let_def)

lemma read_returns_JUndefined:
  "read env args w = Done v w1 \<Longrightarrow> v = JUndefined"
  by (auto simp: read_def insertReadCommand_def Let_def
           split: prod.splits option.splits if_splits)

text \<open>
  The work callbacks: every exception of the engine ends in one of the
  \<^verbatim>\<open>catch\<close> clauses, so the callback returns, with the message stored.
\<close>

lemma doInitialize_work_result:
  assumes "pdalSession d = Some a"
      and "session_initialize env (sessions w a) (pipelineId d) (pipeline d) (serialPaths d)
             (execute d) = (thrown, s)"
  shows "doInitialize_work env d w =
           Done (case thrown of None \<Rightarrow> d | Some e \<Rightarrow> d\<lparr>errMsg := create_message e\<rparr>)
                (w\<lparr>sessions := (sessions w)(a := s)\<rparr>)"
proof (cases thrown)
  case None
  with assms show ?thesis by (simp add: doInitialize_work_def)
next
  case (Some e)
  with assms show ?thesis by (cases e) (simp_all add: doInitialize_work_def)
qed

lemma serialize_work_result:
  assumes "pdalSession d = Some a"
      and "session_serialize env (sessions w a) (paths d) = (thrown, s)"
  shows "serialize_work env d w =
           Done (case thrown of None \<Rightarrow> d | Some e \<Rightarrow> d\<lparr>errMsg := serialize_message e\<rparr>)
                (w\<lparr>sessions := (sessions w)(a := s)\<rparr>)"
proof (cases thrown)
  case None
  with assms show ?thesis by (simp add: serialize_work_def)
next
  case (Some e)
  with assms show ?thesis by (cases e) (simp_all add: serialize_work_def)
qed

lemma read_work_result:
  assumes "commands w p = Some c"
      and "command_run env (sessions w) c = (thrown, c1)"
  shows "read_work env p w =
           Done () (w\<lparr>commands := (commands w)(p \<mapsto>
             (case thrown of None \<Rightarrow> c1 | Some e \<Rightarrow> c1\<lparr>errMsg := read_message e\<rparr>))\<rparr>)"
proof (cases thrown)
  case None
  with assms show ?thesis by (simp add: read_work_def)
next
  case (Some e)
  with assms show ?thesis by (cases e) (simp_all add: read_work_def)
qed

text \<open>
  The completion of a read, by its two paths. With a message, the callback gets the
  message, and the command leaves the registry and the heap. Without one, the
  callback gets the results, its handle is disposed of and the request is deleted:
  the registry and the heap are as they were.
\<close>

lemma read_after_work_error:
  assumes "commands w p = Some c" and "errMsg c \<noteq> []"
  shows "read_after_work p w =
           Done () (w\<lparr>events := events w @
                       [Call (callback c) [JString (errMsg c)], Dispose (callback c),
                        DeleteCommand p],
                     m_readCommandsMutex := False,
                     m_readCommands := (m_readCommands w)(readId c := None),
                     commands := (commands w)(p := None)\<rparr>)"
  using assms by (simp add: read_after_work_def errorCallback_def eraseSelf_def Let_def)

lemma read_after_work_success:
  assumes "commands w p = Some c" and "errMsg c = []"
  shows "read_after_work p w =
           Done () (w\<lparr>events := events w @
             [Call (callback c)
                ([JNull, JString (readId c), Integer_New (numPoints c), Integer_New (numBytes c),
                  Buffer_New (data c) (numBytes c)] @
                 (if rasterize c
                  then [JNumber (xBegin (rasterMeta c)), JNumber (xStep (rasterMeta c)),
                        Integer_New (xNum (rasterMeta c)), JNumber (yBegin (rasterMeta c)),
                        JNumber (yStep (rasterMeta c)), Integer_New (yNum (rasterMeta c))]
                  else [])),
              Dispose (callback c), DeleteRequest]\<rparr>)"
  using assms by (simp add: read_after_work_def reinterpret_cast_Rastered_def Let_def)

lemma read_after_work_calls_once:
  assumes "commands w p = Some c"
  shows "\<exists>w2 payload. read_after_work p w = Done () w2 \<and>
           calls (drop (length (events w)) (events w2)) = [(callback c, payload)] \<and>
           (if errMsg c \<noteq> [] then payload = [JString (errMsg c)]
            else \<exists>rest. payload = JNull # JString (readId c) # rest)"
proof (cases "errMsg c = []")
  case True
  with assms show ?thesis by (simp add: read_after_work_success [of w p c])
next
  case False
  with assms show ?thesis by (simp add: read_after_work_error [of w p c])
qed

lemma uv_complete_read:
  assumes "work_queue w = [ReadWork p]"
  shows "uv_complete env 0 w =
           and_then (read_work env p (w\<lparr>work_queue := []\<rparr>)) (\<lambda>u. read_after_work p)"
  using assms
  by (cases "read_work env p (w\<lparr>work_queue := []\<rparr>)") (simp_all add: uv_complete_def)

lemma uv_complete_create:
  assumes "work_queue w = [CreateWork d]"
  shows "uv_complete env 0 w =
           and_then (doInitialize_work env d (w\<lparr>work_queue := []\<rparr>)) doInitialize_after_work"
  using assms
  by (cases "doInitialize_work env d (w\<lparr>work_queue := []\<rparr>)") (simp_all add: uv_complete_def)

lemma example_read_dispatched:
  "read example_env [JObject, JFunction 7] example_world = Done JUndefined example_dispatched"
  by (subst read_dispatched [where ident = "''0123456789ABCDEF01234567''" and k = 24
            and c = "example_command 7 ''0123456789ABCDEF01234567''" and did = "[Persist 7]"])
     (simp_all add: example_env_def example_world_def example_dispatched_def example_id arg_def)

subsection \<open>The claims\<close>

text \<open>
  C1. A read command is to be in the registry from its registration to its delivery
  and gone right after, with its cleanup (removal from the registry, disposal of the
  callback handle, deletion of the command) done once on the success path and on the
  error path alike. The read of the example request is dispatched and completed, once
  with a run that succeeds and once with a run that throws. After the failed read the
  command is neither in the registry nor on the heap and has been deleted once. After
  the successful read the callback has its results and its handle is disposed of, yet
  the command is still registered under its identifier, still on the heap, and no
  deletion has happened: the success path of the completion callback never calls
  \<open>eraseSelf\<close> and never deletes the command.
\<close>

theorem read_success_keeps_command:
  "read example_env [JObject, JFunction 7] example_world = Done JUndefined example_dispatched \<and>
   uv_complete example_env 0 example_dispatched = Done () example_delivered \<and>
   calls (events example_delivered) =
     [(7, [JNull, JString ''0123456789ABCDEF01234567'', JInteger 1, JInteger 3,
           JBuffer [1, 2, 3]])] \<and>
   disposals (events example_delivered) = [7] \<and>
   m_readCommands example_delivered ''0123456789ABCDEF01234567'' = Some 0 \<and>
   map_option readId (commands example_delivered 0) = Some ''0123456789ABCDEF01234567'' \<and>
   deletions (events example_delivered) = [] \<and>
   read failing_env [JObject, JFunction 7] example_world = Done JUndefined example_dispatched \<and>
   uv_complete failing_env 0 example_dispatched = Done () example_failed \<and>
   calls (events example_failed) = [(7, [JString ''Unknown error''])] \<and>
   disposals (events example_failed) = [7] \<and>
   m_readCommands example_failed ''0123456789ABCDEF01234567'' = None \<and>
   commands example_failed 0 = None \<and>
   deletions (events example_failed) = [0]"
proof -
  let ?i = "''0123456789ABCDEF01234567''"
  have d2: "read failing_env [JObject, JFunction 7] example_world = Done JUndefined example_dispatched"
    by (subst read_dispatched [where ident = ?i and k = 24
              and c = "example_command 7 ?i" and did = "[Persist 7]"])
       (simp_all add: failing_env_def example_env_def example_world_def example_dispatched_def
          example_id arg_def)
  have q: "work_queue example_dispatched = [ReadWork 0]"
    by (simp add: example_dispatched_def)
  have c: "commands (example_dispatched\<lparr>work_queue := []\<rparr>) 0 = Some (example_command 7 ?i)"
    by (simp add: example_dispatched_def)
  have r1: "command_run example_env (sessions (example_dispatched\<lparr>work_queue := []\<rparr>))
              (example_command 7 ?i) =
            (None, (example_command 7 ?i)\<lparr>numPoints := 1, numBytes := 3, data := [1, 2, 3]\<rparr>)"
    by (simp add: example_env_def)
  have r2: "command_run failing_env (sessions (example_dispatched\<lparr>work_queue := []\<rparr>))
              (example_command 7 ?i) =
            (Some other_exception, example_command 7 ?i)"
    by (simp add: failing_env_def example_env_def)
  have ok: "uv_complete example_env 0 example_dispatched = Done () example_delivered"
    unfolding uv_complete_read [OF q] read_work_result [OF c r1]
    by (simp add: read_after_work_def reinterpret_cast_Rastered_def Let_def
          example_command_def example_world_def example_dispatched_def example_delivered_def
          Integer_New_def Buffer_New_def)
  have bad: "uv_complete failing_env 0 example_dispatched = Done () example_failed"
    unfolding uv_complete_read [OF q] read_work_result [OF c r2]
    by (simp add: read_after_work_def errorCallback_def eraseSelf_def Let_def
          example_command_def example_world_def example_dispatched_def example_failed_def)
  have rest: "calls (events example_delivered) =
      [(7, [JNull, JString ?i, JInteger 1, JInteger 3, JBuffer [1, 2, 3]])] \<and>
    disposals (events example_delivered) = [7] \<and>
    m_readCommands example_delivered ?i = Some 0 \<and>
    map_option readId (commands example_delivered 0) = Some ?i \<and>
    deletions (events example_delivered) = [] \<and>
    calls (events example_failed) = [(7, [JString ''Unknown error''])] \<and>
    disposals (events example_failed) = [7] \<and>
    m_readCommands example_failed ?i = None \<and>
    commands example_failed 0 = None \<and>
    deletions (events example_failed) = [0]"
    by (simp add: example_delivered_def example_failed_def example_dispatched_def
          example_command_def)
  from example_read_dispatched d2 ok bad rest show ?thesis by blast
qed

text \<open>
  C2, as amended. For every background work phase whose payload is usable (the task of
  an initialize or a serialize holds a session pointer that is not null; the command
  of a read is on the heap): the work callback returns whatever the engine throws, an
  exception of the engine is stored as the message its \<^verbatim>\<open>catch\<close> clause assigns,
  and work and completion together call exactly one callback, the task's, exactly
  once: with the message for an initialize or a serialize, and for a read with the
  message alone when there is one and otherwise with null, the identifier and the
  results.
\<close>

theorem work_faults_become_messages:
  "(pdalSession d = Some a \<longrightarrow>
      (\<exists>d1 w1 w2. doInitialize_work env d w = Done d1 w1 \<and>
         (\<forall>e. fst (session_initialize env (sessions w a) (pipelineId d) (pipeline d)
                     (serialPaths d) (execute d)) = Some e \<longrightarrow>
              errMsg d1 = create_message e) \<and>
         doInitialize_after_work d1 w1 = Done () w2 \<and>
         calls (drop (length (events w)) (events w2)) = [(callback d, [JString (errMsg d1)])])) \<and>
   (pdalSession sd = Some a \<longrightarrow>
      (\<exists>d1 w1 w2. serialize_work env sd w = Done d1 w1 \<and>
         (\<forall>e. fst (session_serialize env (sessions w a) (paths sd)) = Some e \<longrightarrow>
              errMsg d1 = serialize_message e) \<and>
         serialize_after_work d1 w1 = Done () w2 \<and>
         calls (drop (length (events w)) (events w2)) = [(callback sd, [JString (errMsg d1)])])) \<and>
   (commands w p = Some c \<longrightarrow>
      (\<exists>c1 w1 w2 payload. read_work env p w = Done () w1 \<and> commands w1 p = Some c1 \<and>
         (\<forall>e. fst (command_run env (sessions w) c) = Some e \<longrightarrow> errMsg c1 = read_message e) \<and>
         read_after_work p w1 = Done () w2 \<and>
         calls (drop (length (events w)) (events w2)) = [(callback c1, payload)] \<and>
         (if errMsg c1 \<noteq> [] then payload = [JString (errMsg c1)]
          else \<exists>rest. payload = JNull # JString (readId c1) # rest)))"
proof (intro conjI impI)
  assume h: "pdalSession d = Some a"
  obtain thrown s where r: "session_initialize env (sessions w a) (pipelineId d) (pipeline d)
      (serialPaths d) (execute d) = (thrown, s)"
    by (cases "session_initialize env (sessions w a) (pipelineId d) (pipeline d)
      (serialPaths d) (execute d)")
  show "\<exists>d1 w1 w2. doInitialize_work env d w = Done d1 w1 \<and>
         (\<forall>e. fst (session_initialize env (sessions w a) (pipelineId d) (pipeline d)
                     (serialPaths d) (execute d)) = Some e \<longrightarrow>
              errMsg d1 = create_message e) \<and>
         doInitialize_after_work d1 w1 = Done () w2 \<and>
         calls (drop (length (events w)) (events w2)) = [(callback d, [JString (errMsg d1)])]"
    by (cases thrown)
       (simp_all add: doInitialize_work_result [OF h r] r doInitialize_after_work_def)
next
  assume h: "pdalSession sd = Some a"
  obtain thrown s where r: "session_serialize env (sessions w a) (paths sd) = (thrown, s)"
    by (cases "session_serialize env (sessions w a) (paths sd)")
  show "\<exists>d1 w1 w2. serialize_work env sd w = Done d1 w1 \<and>
         (\<forall>e. fst (session_serialize env (sessions w a) (paths sd)) = Some e \<longrightarrow>
              errMsg d1 = serialize_message e) \<and>
         serialize_after_work d1 w1 = Done () w2 \<and>
         calls (drop (length (events w)) (events w2)) = [(callback sd, [JString (errMsg d1)])]"
    by (cases thrown)
       (simp_all add: serialize_work_result [OF h r] r serialize_after_work_def)
next
  assume h: "commands w p = Some c"
  obtain thrown c1 where r: "command_run env (sessions w) c = (thrown, c1)"
    by (cases "command_run env (sessions w) c")
  let ?c = "case thrown of None \<Rightarrow> c1 | Some e \<Rightarrow> c1\<lparr>errMsg := read_message e\<rparr>"
  let ?w1 = "w\<lparr>commands := (commands w)(p \<mapsto> ?c)\<rparr>"
  have 1: "read_work env p w = Done () ?w1"
    by (rule read_work_result [OF h r])
  have 2: "commands ?w1 p = Some ?c" by simp
  have 3: "\<forall>e. fst (command_run env (sessions w) c) = Some e \<longrightarrow> errMsg ?c = read_message e"
    by (simp add: r)
  from read_after_work_calls_once [OF 2]
  obtain w2 payload where 4: "read_after_work p ?w1 = Done () w2"
    and 5: "calls (drop (length (events w)) (events w2)) = [(callback ?c, payload)]"
    and 6: "if errMsg ?c \<noteq> [] then payload = [JString (errMsg ?c)]
            else \<exists>rest. payload = JNull # JString (readId ?c) # rest"
    by auto
  from 1 2 3 4 5 6
  show "\<exists>c1 w1 w2 payload. read_work env p w = Done () w1 \<and> commands w1 p = Some c1 \<and>
         (\<forall>e. fst (command_run env (sessions w) c) = Some e \<longrightarrow> errMsg c1 = read_message e) \<and>
         read_after_work p w1 = Done () w2 \<and>
         calls (drop (length (events w)) (events w2)) = [(callback c1, payload)] \<and>
         (if errMsg c1 \<noteq> [] then payload = [JString (errMsg c1)]
          else \<exists>rest. payload = JNull # JString (readId c1) # rest)"
    by blast
qed

theorem work_faults_become_messages_witness:
  "(\<exists>d1 w1 w2. doInitialize_work failing_env example_createData example_reading = Done d1 w1 \<and>
      errMsg d1 = ''empty pipeline'' \<and>
      doInitialize_after_work d1 w1 = Done () w2 \<and>
      calls (events w2) = [(4, [JString ''empty pipeline''])]) \<and>
   (\<exists>d1 w1 w2. serialize_work failing_env example_serializeData example_reading = Done d1 w1 \<and>
      errMsg d1 = ''Memory allocation failed in SERIALIZE'' \<and>
      serialize_after_work d1 w1 = Done () w2 \<and>
      calls (events w2) = [(5, [JString ''Memory allocation failed in SERIALIZE''])]) \<and>
   (\<exists>c1 w1 w2. read_work failing_env 0 example_reading = Done () w1 \<and>
      commands w1 0 = Some c1 \<and> errMsg c1 = ''Unknown error'' \<and>
      read_after_work 0 w1 = Done () w2 \<and>
      calls (events w2) = [(7, [JString ''Unknown error''])])"
proof -
  note inst = work_faults_become_messages
    [of example_createData 0 failing_env example_reading example_serializeData 0
        "example_command 7 ''AB''"]
  have ev: "events example_reading = []"
    by (simp add: example_reading_def example_world_def)
  have i: "session_initialize failing_env (sessions example_reading 0)
             (pipelineId example_createData) (pipeline example_createData)
             (serialPaths example_createData) (execute example_createData) =
           (Some (runtime_error ''empty pipeline''), 0)"
    by (simp add: failing_env_def example_env_def example_createData_def example_reading_def
          example_world_def)
  have s: "session_serialize failing_env (sessions example_reading 0)
             (paths example_serializeData) = (Some bad_alloc, 0)"
    by (simp add: failing_env_def example_env_def example_reading_def example_world_def)
  have r: "command_run failing_env (sessions example_reading) (example_command 7 ''AB'') =
             (Some other_exception, example_command 7 ''AB'')"
    by (simp add: failing_env_def example_env_def)
  have hd: "pdalSession example_createData = Some 0" "callback example_createData = 4"
    by (simp_all add: example_createData_def)
  have hs: "pdalSession example_serializeData = Some 0" "callback example_serializeData = 5"
    by (simp_all add: example_serializeData_def)
  have hc: "commands example_reading 0 = Some (example_command 7 ''AB'')"
    by (simp add: example_reading_def)
  from inst hd have 1: "\<exists>d1 w1 w2.
      doInitialize_work failing_env example_createData example_reading = Done d1 w1 \<and>
      errMsg d1 = ''empty pipeline'' \<and>
      doInitialize_after_work d1 w1 = Done () w2 \<and>
      calls (events w2) = [(4, [JString ''empty pipeline''])]"
    by (simp add: i ev) metis
  from inst hs have 2: "\<exists>d1 w1 w2.
      serialize_work failing_env example_serializeData example_reading = Done d1 w1 \<and>
      errMsg d1 = ''Memory allocation failed in SERIALIZE'' \<and>
      serialize_after_work d1 w1 = Done () w2 \<and>
      calls (events w2) = [(5, [JString ''Memory allocation failed in SERIALIZE''])]"
    by (simp add: s ev) metis
  from inst hc obtain c1 w1 w2 payload where
        f1: "read_work failing_env 0 example_reading = Done () w1"
    and f2: "commands w1 0 = Some c1"
    and f3: "\<forall>e. fst (command_run failing_env (sessions example_reading)
                         (example_command 7 ''AB'')) = Some e \<longrightarrow>
                 errMsg c1 = read_message e"
    and f4: "read_after_work 0 w1 = Done () w2"
    and f5: "calls (drop (length (events example_reading)) (events w2)) = [(callback c1, payload)]"
    and f6: "if errMsg c1 \<noteq> [] then payload = [JString (errMsg c1)]
             else \<exists>rest. payload = JNull # JString (readId c1) # rest"
    by blast
  from f3 have m: "errMsg c1 = ''Unknown error''"
    by (simp add: r)
  from read_work_result [OF hc r] f1 f2 have "callback c1 = 7"
    by (auto simp: example_command_def)
  with f5 f6 m have "calls (events w2) = [(7, [JString ''Unknown error''])]"
    by (simp add: ev)
  with f1 f2 f4 m have 3: "\<exists>c1 w1 w2. read_work failing_env 0 example_reading = Done () w1 \<and>
      commands w1 0 = Some c1 \<and> errMsg c1 = ''Unknown error'' \<and>
      read_after_work 0 w1 = Done () w2 \<and>
      calls (events w2) = [(7, [JString ''Unknown error''])]"
    by blast
  from 1 2 3 show ?thesis by blast
qed

text \<open>
  C2 as it was stated fails for a task dispatched after the session pointer was
  released: \<open>destroy\<close>, then \<open>create\<close> with valid arguments, queues a task whose
  session pointer is null; its work callback dereferences the pointer, and no
  callback is ever called.
\<close>

theorem work_null_session_counterexample:
  "destroy [] example_world = Done JUndefined (example_world\<lparr>m_pdalSession := None\<rparr>) \<and>
   create [JString ''p1'', JString ''{}'', JArray [], JFunction 4]
       (example_world\<lparr>m_pdalSession := None\<rparr>) =
     Done JUndefined
       (example_world\<lparr>m_pdalSession := None,
          work_queue := [CreateWork \<lparr>callback = 4, errMsg = [], pdalSession = None,
                                     pipelineId = ''p1'', pipeline = ''{}'', serialPaths = [],
                                     execute = True\<rparr>],
          events := [Persist 4]\<rparr>) \<and>
   uv_complete example_env 0
       (example_world\<lparr>m_pdalSession := None,
          work_queue := [CreateWork \<lparr>callback = 4, errMsg = [], pdalSession = None,
                                     pipelineId = ''p1'', pipeline = ''{}'', serialPaths = [],
                                     execute = True\<rparr>],
          events := [Persist 4]\<rparr>) = Crash"
proof -
  let ?d = "\<lparr>callback = 4, errMsg = [], pdalSession = None, pipelineId = ''p1'',
             pipeline = ''{}'', serialPaths = [], execute = True\<rparr>"
  let ?w = "example_world\<lparr>m_pdalSession := None, work_queue := [CreateWork ?d],
             events := [Persist 4]\<rparr>"
  have 1: "destroy [] example_world = Done JUndefined (example_world\<lparr>m_pdalSession := None\<rparr>)"
    by (simp add: destroy_def)
  have 2: "create [JString ''p1'', JString ''{}'', JArray [], JFunction 4]
             (example_world\<lparr>m_pdalSession := None\<rparr>) = Done JUndefined ?w"
    by (simp add: create_def doInitialize_def Let_def arg_def parsePathList_def example_world_def)
  have q: "work_queue ?w = [CreateWork ?d]" by simp
  have 3: "uv_complete example_env 0 ?w = Crash"
    unfolding uv_complete_create [OF q] by (simp add: doInitialize_work_def)
  from 1 2 3 show ?thesis by blast
qed

text \<open>
  C3, as amended. No query tests the session pointer or the state of the session.
  After \<open>destroy\<close> each of the five queries dereferences the null pointer: that is a
  crash, not an error reported to the caller. While the pointer is held each query
  returns what the session's method returns, and an exception of that method leaves
  the query uncaught.
\<close>

theorem queries_dereference_session:
  "and_then (destroy args0 w) (\<lambda>v. getNumPoints env args) = Crash \<and>
   and_then (destroy args0 w) (\<lambda>v. getSchema env args) = Crash \<and>
   and_then (destroy args0 w) (\<lambda>v. getStats env args) = Crash \<and>
   and_then (destroy args0 w) (\<lambda>v. getSrs env args) = Crash \<and>
   and_then (destroy args0 w) (\<lambda>v. getFills env args) = Crash \<and>
   (m_pdalSession w = Some a \<longrightarrow>
      getNumPoints env args w =
        (case session_getNumPoints env (sessions w a) of
           Inl e \<Rightarrow> Thrown e w | Inr n \<Rightarrow> Done (Integer_New n) w) \<and>
      getSchema env args w =
        (case session_getSchema env (sessions w a) of
           Inl e \<Rightarrow> Thrown e w | Inr s \<Rightarrow> Done (JString s) w) \<and>
      getStats env args w =
        (case session_getStats env (sessions w a) of
           Inl e \<Rightarrow> Thrown e w | Inr s \<Rightarrow> Done (JString s) w) \<and>
      getSrs env args w =
        (case session_getSrs env (sessions w a) of
           Inl e \<Rightarrow> Thrown e w | Inr s \<Rightarrow> Done (JString s) w) \<and>
      getFills env args w =
        (case session_getFills env (sessions w a) of
           Inl e \<Rightarrow> Thrown e w | Inr fills \<Rightarrow> Done (JArray (map Integer_New fills)) w))"
  by (simp add: destroy_def getNumPoints_def getSchema_def getStats_def getSrs_def getFills_def)

theorem queries_dereference_session_witness:
  "and_then (destroy [] example_world) (\<lambda>v. getSchema example_env []) = Crash \<and>
   getNumPoints example_env [] example_world =
     Thrown (runtime_error ''Not initialized'') example_world \<and>
   getNumPoints example_env [] (example_world\<lparr>sessions := (\<lambda>a. 7)\<rparr>) =
     Done (JInteger 7) (example_world\<lparr>sessions := (\<lambda>a. 7)\<rparr>) \<and>
   getSchema example_env [] example_world = Done (JString ''X,Y,Z'') example_world"
  using queries_dereference_session [of "[]" example_world example_env "[]" 0]
        queries_dereference_session
          [of "[]" "example_world\<lparr>sessions := (\<lambda>a. 7)\<rparr>" example_env "[]" 0]
  by (simp add: example_world_def example_env_def Integer_New_def)

theorem query_after_destroy_counterexample:
  "destroy [] example_world = Done JUndefined (example_world\<lparr>m_pdalSession := None\<rparr>) \<and>
   getNumPoints example_env [] (example_world\<lparr>m_pdalSession := None\<rparr>) = Crash"
  by (simp add: destroy_def getNumPoints_def)

text \<open>
  C4, as amended. An insertion into the registry never fails because the identifier
  is present: unless the map insertion itself throws, the identifier maps to the new
  command afterwards, whatever it mapped to before, every other entry is as it was,
  and the mutex is released. If the map insertion throws, the registry is unchanged,
  the mutex is released and a \<^verbatim>\<open>runtime_error\<close> is thrown.
\<close>

theorem insertReadCommand_overwrites:
  "(\<not> map_insert_throws env ident \<longrightarrow>
      (\<exists>w1. insertReadCommand env ident p w = Done () w1 \<and>
         m_readCommands w1 = (m_readCommands w)(ident \<mapsto> p) \<and>
         \<not> m_readCommandsMutex w1 \<and>
         commands w1 = commands w \<and> work_queue w1 = work_queue w \<and> events w1 = events w)) \<and>
   (map_insert_throws env ident \<longrightarrow>
      (\<exists>w1. insertReadCommand env ident p w =
               Thrown (runtime_error ''Could not lock readCommands'') w1 \<and>
         m_readCommands w1 = m_readCommands w \<and>
         \<not> m_readCommandsMutex w1 \<and>
         commands w1 = commands w \<and> work_queue w1 = work_queue w \<and> events w1 = events w))"
  by (simp add: insertReadCommand_def Let_def)

theorem insertReadCommand_overwrites_witness:
  "(\<exists>w1. insertReadCommand example_env ''AB'' 5
             (example_world\<lparr>m_readCommands := [''AB'' \<mapsto> 3]\<rparr>) = Done () w1 \<and>
      m_readCommands w1 ''AB'' = Some 5 \<and> m_readCommands w1 ''CD'' = None) \<and>
   (\<exists>w1. insertReadCommand (example_env\<lparr>map_insert_throws := (\<lambda>ident. True)\<rparr>) ''AB'' 5
             example_world =
            Thrown (runtime_error ''Could not lock readCommands'') w1 \<and>
      m_readCommands w1 ''AB'' = None)"
proof -
  have a: "\<not> map_insert_throws example_env ''AB''"
    by (simp add: example_env_def)
  have b: "map_insert_throws (example_env\<lparr>map_insert_throws := (\<lambda>ident. True)\<rparr>) ''AB''"
    by simp
  from insertReadCommand_overwrites
         [of example_env "''AB''" 5 "example_world\<lparr>m_readCommands := [''AB'' \<mapsto> 3]\<rparr>"] a
  obtain w1 where
    "insertReadCommand example_env ''AB'' 5
       (example_world\<lparr>m_readCommands := [''AB'' \<mapsto> 3]\<rparr>) = Done () w1"
    "m_readCommands w1 = [''AB'' \<mapsto> 3](''AB'' \<mapsto> 5)"
    by auto
  moreover
  from insertReadCommand_overwrites
         [of "example_env\<lparr>map_insert_throws := (\<lambda>ident. True)\<rparr>" "''AB''" 5 example_world] b
  obtain w2 where
    "insertReadCommand (example_env\<lparr>map_insert_throws := (\<lambda>ident. True)\<rparr>) ''AB'' 5
       example_world = Thrown (runtime_error ''Could not lock readCommands'') w2"
    "m_readCommands w2 = m_readCommands example_world"
    by auto
  ultimately show ?thesis
    by (simp add: example_world_def)
qed

theorem insertReadCommand_counterexample:
  "insertReadCommand example_env ''AB'' 5 (example_world\<lparr>m_readCommands := [''AB'' \<mapsto> 3]\<rparr>) =
     Done () (example_world\<lparr>m_readCommands := [''AB'' \<mapsto> 5]\<rparr>)"
  by (simp add: insertReadCommand_def example_env_def example_world_def Let_def)

text \<open>
  C5, as amended. \<open>read\<close> returns undefined on every path on which it returns, a
  successful dispatch included: the identifier is not returned. For a request that
  is dispatched, the identifier generated is the key under which the new command is
  registered, and the command's request is queued. What the caller receives of an
  identifier is the second argument of the completion callback of a read without an
  error message: the \<open>readId\<close> of the command.
\<close>

theorem read_returns_undefined:
  "(\<forall>v w1. read env args w = Done v w1 \<longrightarrow> v = JUndefined) \<and>
   (generateReadId (rand env) (rand_calls w) = (ident, k) \<and>
    factory_create env (m_pdalSession w) ident args = (Some c, did) \<and>
    \<not> map_insert_throws env ident \<longrightarrow>
      (\<exists>w1. read env args w = Done JUndefined w1 \<and>
         m_readCommands w1 = (m_readCommands w)(ident \<mapsto> next_command w) \<and>
         commands w1 = (commands w)(next_command w \<mapsto> c) \<and>
         work_queue w1 = work_queue w @ [ReadWork (next_command w)])) \<and>
   (commands w p = Some c' \<and> errMsg c' = [] \<longrightarrow>
      (\<exists>w1 rest. read_after_work p w = Done () w1 \<and>
         calls (drop (length (events w)) (events w1)) =
           [(callback c', JNull # JString (readId c') # rest)]))"
proof (intro conjI allI impI)
  fix v w1 assume "read env args w = Done v w1"
  then show "v = JUndefined" by (rule read_returns_JUndefined)
next
  assume a: "generateReadId (rand env) (rand_calls w) = (ident, k) \<and>
    factory_create env (m_pdalSession w) ident args = (Some c, did) \<and>
    \<not> map_insert_throws env ident"
  show "\<exists>w1. read env args w = Done JUndefined w1 \<and>
         m_readCommands w1 = (m_readCommands w)(ident \<mapsto> next_command w) \<and>
         commands w1 = (commands w)(next_command w \<mapsto> c) \<and>
         work_queue w1 = work_queue w @ [ReadWork (next_command w)]"
    using a by (simp add: read_dispatched [of env w ident k args c did])
next
  assume a: "commands w p = Some c' \<and> errMsg c' = []"
  show "\<exists>w1 rest. read_after_work p w = Done () w1 \<and>
         calls (drop (length (events w)) (events w1)) =
           [(callback c', JNull # JString (readId c') # rest)]"
    using a by (simp add: read_after_work_success [of w p c'])
qed

theorem read_returns_undefined_witness:
  "(\<exists>w1. read example_env [JObject, JFunction 7] example_world = Done JUndefined w1 \<and>
      m_readCommands w1 ''0123456789ABCDEF01234567'' = Some 0 \<and>
      commands w1 0 = Some (example_command 7 ''0123456789ABCDEF01234567'') \<and>
      work_queue w1 = [ReadWork 0]) \<and>
   (\<exists>w1 rest.
      read_after_work 0
        (example_world\<lparr>commands := [0 \<mapsto> example_command 7 ''0123456789ABCDEF01234567'']\<rparr>) =
        Done () w1 \<and>
      calls (events w1) = [(7, JNull # JString ''0123456789ABCDEF01234567'' # rest)])"
proof -
  let ?c = "example_command 7 ''0123456789ABCDEF01234567''"
  let ?w = "example_world\<lparr>commands := [0 \<mapsto> ?c]\<rparr>"
  have a: "generateReadId (rand example_env) (rand_calls example_world) =
             (''0123456789ABCDEF01234567'', 24) \<and>
           factory_create example_env (m_pdalSession example_world)
             ''0123456789ABCDEF01234567'' [JObject, JFunction 7] = (Some ?c, [Persist 7]) \<and>
           \<not> map_insert_throws example_env ''0123456789ABCDEF01234567''"
    by (simp add: example_env_def example_world_def example_id arg_def)
  have b: "commands ?w 0 = Some ?c \<and> errMsg ?c = []"
    by (simp add: example_command_def)
  from read_returns_undefined
         [of example_env "[JObject, JFunction 7]" example_world
             "''0123456789ABCDEF01234567''" 24 ?c "[Persist 7]" 0 ?c] a
  have "\<exists>w1. read example_env [JObject, JFunction 7] example_world = Done JUndefined w1 \<and>
         m_readCommands w1 =
           (m_readCommands example_world)
             (''0123456789ABCDEF01234567'' \<mapsto> next_command example_world) \<and>
         commands w1 = (commands example_world)(next_command example_world \<mapsto> ?c) \<and>
         work_queue w1 = work_queue example_world @ [ReadWork (next_command example_world)]"
    by blast
  then have first: "\<exists>w1. read example_env [JObject, JFunction 7] example_world =
        Done JUndefined w1 \<and>
      m_readCommands w1 ''0123456789ABCDEF01234567'' = Some 0 \<and>
      commands w1 0 = Some ?c \<and> work_queue w1 = [ReadWork 0]"
    by (auto simp: example_world_def)
  from read_returns_undefined
         [of example_env "[]" ?w "''0123456789ABCDEF01234567''" 24 ?c "[]" 0 ?c] b
  have "\<exists>w1 rest. read_after_work 0 ?w = Done () w1 \<and>
         calls (drop (length (events ?w)) (events w1)) =
           [(callback ?c, JNull # JString (readId ?c) # rest)]"
    by blast
  then have second: "\<exists>w1 rest. read_after_work 0 ?w = Done () w1 \<and>
      calls (events w1) = [(7, JNull # JString ''0123456789ABCDEF01234567'' # rest)]"
    by (simp add: example_world_def example_command_def)
  from first second show ?thesis by blast
qed

theorem read_counterexample:
  "read example_env [JObject, JFunction 7] example_world =
     Done JUndefined
       (example_world\<lparr>m_readCommands := [''0123456789ABCDEF01234567'' \<mapsto> 0],
          commands := [0 \<mapsto> example_command 7 ''0123456789ABCDEF01234567''],
          next_command := 1,
          work_queue := [ReadWork 0],
          events := [Persist 7],
          rand_calls := 24\<rparr>) \<and>
   JUndefined \<noteq> JString ''0123456789ABCDEF01234567''"
  using example_read_dispatched by (simp add: example_dispatched_def)

text \<open>
  C6. An initialize request whose callback is a function and whose pipelineId or
  pipeline is not a string (a missing one included): \<open>doInitialize\<close> makes the
  persistent handle, calls the callback at once with the message of the last failed
  check, disposes of the handle and returns. Nothing else of the state changes: no
  request is queued, no command is made, nothing is registered, the session is not
  touched. \<open>create\<close> returns undefined in that state.
\<close>

theorem doInitialize_validation_error:
  assumes cb: "IsFunction (arg args 3)"
      and bad: "\<not> IsString (arg args 0) \<or> \<not> IsString (arg args 1)"
  shows "doInitialize args exec w =
           Done () (w\<lparr>events := events w @
             [Persist (Function_Cast (arg args 3)),
              Call (Function_Cast (arg args 3))
                [JString (if IsString (arg args 1) then pipelineId_message
                          else pipeline_message)],
              Dispose (Function_Cast (arg args 3))]\<rparr>) \<and>
         create args w =
           Done JUndefined (w\<lparr>events := events w @
             [Persist (Function_Cast (arg args 3)),
              Call (Function_Cast (arg args 3))
                [JString (if IsString (arg args 1) then pipelineId_message
                          else pipeline_message)],
              Dispose (Function_Cast (arg args 3))]\<rparr>)"
proof -
  have nu: "\<not> IsUndefined (arg args 3)"
    using cb IsUndefined_not_IsFunction by blast
  have "doInitialize args exec' w =
           Done () (w\<lparr>events := events w @
             [Persist (Function_Cast (arg args 3)),
              Call (Function_Cast (arg args 3))
                [JString (if IsString (arg args 1) then pipelineId_message
                          else pipeline_message)],
              Dispose (Function_Cast (arg args 3))]\<rparr>)" for exec'
  proof (cases "IsString (arg args 1)")
    case True
    with bad have "\<not> IsString (arg args 0)" by simp
    with True cb nu show ?thesis
      by (simp add: doInitialize_def Let_def errorCallback_def pipelineId_message_def
          IsString_not_IsUndefined)
  next
    case False
    with cb nu show ?thesis
      by (simp add: doInitialize_def Let_def errorCallback_def pipeline_message_def)
  qed
  then show ?thesis by (simp add: create_def)
qed

theorem doInitialize_validation_error_witness:
  "doInitialize [JInteger 5, JString ''{}'', JUndefined, JFunction 4] True example_world =
     Done () (example_world\<lparr>events :=
        [Persist 4, Call 4 [JString pipelineId_message], Dispose 4]\<rparr>) \<and>
   create [JString ''p1'', JUndefined, JUndefined, JFunction 4] example_world =
     Done JUndefined (example_world\<lparr>events :=
        [Persist 4, Call 4 [JString pipeline_message], Dispose 4]\<rparr>)"
  using doInitialize_validation_error
          [of "[JInteger 5, JString ''{}'', JUndefined, JFunction 4]" True example_world]
        doInitialize_validation_error
          [of "[JString ''p1'', JUndefined, JUndefined, JFunction 4]" True example_world]
  by (simp add: arg_def example_world_def)

text \<open>
  C7, as amended. Two identifiers are equal exactly when the 24 values \<^verbatim>\<open>rand()\<close>
  returned for the one agree with the 24 it returned for the other, position by
  position and modulo 16: nothing in the generation excludes that. Nor does the
  registration detect it: a dispatched read whose identifier is registered already
  returns as any other, and the registry entry then points to the new command.
\<close>

theorem generateReadId_collision:
  "(fst (generateReadId rnd k) = fst (generateReadId rnd' k') \<longleftrightarrow>
      (\<forall>j<24. rnd (k + j) mod 16 = rnd' (k' + j) mod 16)) \<and>
   (generateReadId (rand env) (rand_calls w) = (ident, n) \<and>
    factory_create env (m_pdalSession w) ident args = (Some c, did) \<and>
    \<not> map_insert_throws env ident \<and>
    m_readCommands w ident = Some q \<longrightarrow>
      (\<exists>w1. read env args w = Done JUndefined w1 \<and>
         m_readCommands w1 ident = Some (next_command w) \<and>
         commands w1 (next_command w) = Some c))"
proof (intro conjI impI)
  show "fst (generateReadId rnd k) = fst (generateReadId rnd' k') \<longleftrightarrow>
      (\<forall>j<24. rnd (k + j) mod 16 = rnd' (k' + j) mod 16)"
    by (simp add: generateReadId_closed readIdSize_def list_eq_iff_nth_eq hexdigit_eq_iff
          del: upt_Suc)
next
  assume a: "generateReadId (rand env) (rand_calls w) = (ident, n) \<and>
    factory_create env (m_pdalSession w) ident args = (Some c, did) \<and>
    \<not> map_insert_throws env ident \<and>
    m_readCommands w ident = Some q"
  then show "\<exists>w1. read env args w = Done JUndefined w1 \<and>
         m_readCommands w1 ident = Some (next_command w) \<and>
         commands w1 (next_command w) = Some c"
    by (simp add: read_dispatched [of env w ident n args c did])
qed

theorem generateReadId_collision_witness:
  "fst (generateReadId (\<lambda>k. int (k mod 24)) 0) = fst (generateReadId (\<lambda>k. int (k mod 24)) 24) \<and>
   fst (generateReadId (\<lambda>k. int k) 0) \<noteq> fst (generateReadId (\<lambda>k. int k) 24) \<and>
   (\<exists>w1. read reseeded_env [JObject, JFunction 8] example_dispatched = Done JUndefined w1 \<and>
      m_readCommands w1 ''0123456789ABCDEF01234567'' = Some 1 \<and>
      commands w1 1 = Some (example_command 8 ''0123456789ABCDEF01234567''))"
proof (intro conjI)
  show "fst (generateReadId (\<lambda>k. int (k mod 24)) 0) = fst (generateReadId (\<lambda>k. int (k mod 24)) 24)"
    unfolding generateReadId_collision [THEN conjunct1] by simp
  show "fst (generateReadId (\<lambda>k. int k) 0) \<noteq> fst (generateReadId (\<lambda>k. int k) 24)"
    unfolding generateReadId_collision [THEN conjunct1]
  proof
    assume h: "\<forall>j<24. int (0 + j) mod 16 = int (24 + j) mod 16"
    from h [rule_format, of 0] show False by simp
  qed
  have a: "generateReadId (rand reseeded_env) (rand_calls example_dispatched) =
             (''0123456789ABCDEF01234567'', 48) \<and>
           factory_create reseeded_env (m_pdalSession example_dispatched)
             ''0123456789ABCDEF01234567'' [JObject, JFunction 8] =
             (Some (example_command 8 ''0123456789ABCDEF01234567''), [Persist 8]) \<and>
           \<not> map_insert_throws reseeded_env ''0123456789ABCDEF01234567'' \<and>
           m_readCommands example_dispatched ''0123456789ABCDEF01234567'' = Some 0"
    by (simp add: reseeded_env_def example_env_def example_dispatched_def example_world_def
          reseeded_id_second arg_def)
  from generateReadId_collision
         [THEN conjunct2, rule_format, OF a]
  show "\<exists>w1. read reseeded_env [JObject, JFunction 8] example_dispatched = Done JUndefined w1 \<and>
      m_readCommands w1 ''0123456789ABCDEF01234567'' = Some 1 \<and>
      commands w1 1 = Some (example_command 8 ''0123456789ABCDEF01234567'')"
    by (simp add: example_dispatched_def)
qed

text \<open>
  C7 as it was stated fails when \<^verbatim>\<open>rand()\<close> repeats its values, as it does when
  the generator is reseeded with the same seed: two reads dispatched one after the
  other, both still in flight, carry the same identifier, and the registry holds the
  second command only.
\<close>

theorem read_collision_counterexample:
  "read reseeded_env [JObject, JFunction 7] example_world = Done JUndefined example_dispatched \<and>
   read reseeded_env [JObject, JFunction 8] example_dispatched =
     Done JUndefined
       (example_dispatched\<lparr>
          m_readCommands := [''0123456789ABCDEF01234567'' \<mapsto> 1],
          commands := [0 \<mapsto> example_command 7 ''0123456789ABCDEF01234567'',
                       1 \<mapsto> example_command 8 ''0123456789ABCDEF01234567''],
          next_command := 2,
          work_queue := [ReadWork 0, ReadWork 1],
          events := [Persist 7, Persist 8],
          rand_calls := 48\<rparr>)"
proof -
  let ?i = "''0123456789ABCDEF01234567''"
  have 1: "read reseeded_env [JObject, JFunction 7] example_world =
             Done JUndefined example_dispatched"
    by (subst read_dispatched [where ident = ?i and k = 24
              and c = "example_command 7 ?i" and did = "[Persist 7]"])
       (simp_all add: reseeded_env_def example_env_def example_world_def example_dispatched_def
          reseeded_id_first arg_def)
  have 2: "read reseeded_env [JObject, JFunction 8] example_dispatched =
     Done JUndefined
       (example_dispatched\<lparr>
          m_readCommands := [?i \<mapsto> 1],
          commands := [0 \<mapsto> example_command 7 ?i, 1 \<mapsto> example_command 8 ?i],
          next_command := 2,
          work_queue := [ReadWork 0, ReadWork 1],
          events := [Persist 7, Persist 8],
          rand_calls := 48\<rparr>)"
    by (subst read_dispatched [where ident = ?i and k = 48
              and c = "example_command 8 ?i" and did = "[Persist 8]"])
       (simp_all add: reseeded_env_def example_env_def example_world_def example_dispatched_def
          reseeded_id_second arg_def)
  from 1 2 show ?thesis ..
qed

text \<open>
  C9. \<open>destroy\<close> always returns undefined and leaves the session pointer null; a
  second \<open>destroy\<close> right after the first returns undefined and leaves the state
  exactly as the first left it. Nothing but the pointer of the object changes: the
  session objects, and with them the tasks that hold a pointer of their own, are as
  they were.
\<close>

theorem destroy_idempotent:
  "and_then (destroy args w) (\<lambda>v. destroy args') = destroy args w \<and>
   (\<exists>w1. destroy args w = Done JUndefined w1 \<and> m_pdalSession w1 = None \<and>
      destroy args' w1 = Done JUndefined w1 \<and>
      sessions w1 = sessions w \<and> work_queue w1 = work_queue w \<and>
      m_readCommands w1 = m_readCommands w \<and> commands w1 = commands w \<and>
      events w1 = events w)"
  by (simp add: destroy_def)

theorem destroy_idempotent_witness:
  "and_then (destroy [] example_world) (\<lambda>v. destroy []) =
     Done JUndefined (example_world\<lparr>m_pdalSession := None\<rparr>)"
  using destroy_idempotent [of "[]" example_world "[]"] by (simp add: destroy_def)

text \<open>
  C10. \<open>create\<close> and \<open>parse\<close> called with a fourth argument that is undefined or
  not a function, and \<open>serialize\<close> called with such a second argument, throw a
  \<^verbatim>\<open>runtime_error\<close> to the caller and leave the state exactly as it was: no
  handle, no call of a callback, no request queued; \<open>parse\<close> does not reach the
  release of its session.
\<close>

theorem invalid_callback_throws:
  "(IsUndefined (arg args 3) \<or> \<not> IsFunction (arg args 3) \<longrightarrow>
      create args w = Thrown (runtime_error create_callback_message) w \<and>
      parse args w = Thrown (runtime_error create_callback_message) w) \<and>
   (IsUndefined (arg args' 1) \<or> \<not> IsFunction (arg args' 1) \<longrightarrow>
      serialize args' w = Thrown (runtime_error serialize_callback_message) w)"
proof (intro conjI impI)
  assume a: "IsUndefined (arg args 3) \<or> \<not> IsFunction (arg args 3)"
  show "create args w = Thrown (runtime_error create_callback_message) w"
    by (simp add: create_def doInitialize_invalid_callback [OF a])
  show "parse args w = Thrown (runtime_error create_callback_message) w"
    by (simp add: parse_def doInitialize_invalid_callback [OF a])
next
  assume "IsUndefined (arg args' 1) \<or> \<not> IsFunction (arg args' 1)"
  then show "serialize args' w = Thrown (runtime_error serialize_callback_message) w"
    by (simp add: serialize_def Let_def)
qed

theorem invalid_callback_throws_witness:
  "create [JString ''p1'', JString ''{}'', JArray [], JString ''cb''] example_world =
     Thrown (runtime_error create_callback_message) example_world \<and>
   parse [JString ''p1'', JString ''{}''] example_world =
     Thrown (runtime_error create_callback_message) example_world \<and>
   serialize [JArray []] example_world =
     Thrown (runtime_error serialize_callback_message) example_world"
  using invalid_callback_throws
          [of "[JString ''p1'', JString ''{}'', JArray [], JString ''cb'']" example_world
              "[JArray []]"]
        invalid_callback_throws [of "[JString ''p1'', JString ''{}'']" example_world "[JArray []]"]
  by (simp add: arg_def)

end
